theory Spec2Isabelle
  imports Main
begin

section \<open>Machine integers and time\<close>

text \<open>
  Go's \<^verbatim>\<open>time.Duration\<close> is an \<^verbatim>\<open>int64\<close> counting nanoseconds, and \<^verbatim>\<open>int\<close> is taken to be
  64 bits wide (the platforms the provider is built for).  Values are kept as
  mathematical integers and every arithmetic result of the source is passed through
  \<open>wrap64\<close>, which is what the silent two's-complement overflow of Go does.
\<close>

definition wrap64 :: "int \<Rightarrow> int" where
  "wrap64 x = (x + 9223372036854775808) mod 18446744073709551616 - 9223372036854775808"

text \<open>Go's integer division truncates towards zero.\<close>

definition go_quot :: "int \<Rightarrow> int \<Rightarrow> int" where
  "go_quot a b = sgn a * sgn b * (\<bar>a\<bar> div \<bar>b\<bar>)"

definition Millisecond :: int where
  "Millisecond = 1000000"

definition Second :: int where
  "Second = 1000000000"

section \<open>Retry policy (retry.go)\<close>

definition defaultBaseDelay :: int where
  "defaultBaseDelay = 500 * Millisecond"

definition defaultMaxDelay :: int where
  "defaultMaxDelay = 30 * Second"

definition defaultMaxRetries :: int where
  "defaultMaxRetries = 3"

record retryConfig =
  baseDelay :: int
  maxDelay :: int
  maxRetries :: int

definition defaultRetryConfig :: retryConfig where
  "defaultRetryConfig =
     \<lparr>baseDelay = defaultBaseDelay, maxDelay = defaultMaxDelay, maxRetries = defaultMaxRetries\<rparr>"

definition isRetryableStatus :: "int \<Rightarrow> bool" where
  "isRetryableStatus statusCode =
     (statusCode = 429 \<or> statusCode = 502 \<or> statusCode = 503 \<or> statusCode = 504)"

subsection \<open>Responses and headers\<close>

text \<open>
  A response as the client sees it: the status code, the header (indexed by the header
  name as the source spells it; \<^verbatim>\<open>Header.Get\<close> yields the empty string for an absent
  header) and the bytes of the body.
\<close>

record http_response =
  resp_StatusCode :: int
  resp_Header :: "string \<rightharpoonup> string"
  resp_Body :: string

definition header_get :: "(string \<rightharpoonup> string) \<Rightarrow> string \<Rightarrow> string" where
  "header_get h k = (case h k of None \<Rightarrow> [] | Some v \<Rightarrow> v)"

subsection \<open>strconv.Atoi\<close>

text \<open>
  \<^verbatim>\<open>strconv.Atoi\<close>: an optional sign, then one or more decimal digits and nothing else;
  a value outside the range of \<^verbatim>\<open>int\<close> is an error.
\<close>

definition digit_val :: "char \<Rightarrow> nat option" where
  "digit_val c =
     (let code = (of_char c :: nat)
      in if 48 \<le> code \<and> code \<le> 57 then Some (code - 48) else None)"

fun parse_digits :: "nat \<Rightarrow> string \<Rightarrow> nat option" where
  "parse_digits acc [] = Some acc"
| "parse_digits acc (c # cs) =
     (case digit_val c of None \<Rightarrow> None | Some d \<Rightarrow> parse_digits (10 * acc + d) cs)"

definition in_int_range :: "int \<Rightarrow> bool" where
  "in_int_range v = (- 9223372036854775808 \<le> v \<and> v \<le> 9223372036854775807)"

definition Atoi :: "string \<Rightarrow> int option" where
  "Atoi s =
     (case s of
        [] \<Rightarrow> None
      | c # cs \<Rightarrow>
          (let neg = (c = CHR ''-'');
               ds = (if c = CHR ''-'' \<or> c = CHR ''+'' then cs else s)
           in if ds = [] then None
              else (case parse_digits 0 ds of
                      None \<Rightarrow> None
                    | Some n \<Rightarrow>
                        (let v = (if neg then - int n else int n)
                         in if in_int_range v then Some v else None))))"

subsection \<open>retryDelay\<close>

text \<open>
  \<^verbatim>\<open>time.Duration(math.Pow(2, float64(attempt)))\<close>.  Powers of two are exact in float64;
  a negative exponent gives a fraction that the conversion truncates to 0; from 2^63 on
  the value does not fit an int64 and Go leaves the result of the conversion to the
  implementation, which is \<open>None\<close> here.
\<close>

definition pow2_duration :: "int \<Rightarrow> int option" where
  "pow2_duration attempt =
     (if attempt < 0 then Some 0
      else if attempt < 63 then Some (2 ^ nat attempt)
      else None)"

text \<open>
  What a call of retryDelay does: it returns a duration, or panics inside
  \<^verbatim>\<open>rand.Int64N\<close> (which panics on an argument \<open>n \<le> 0\<close>), or depends on the
  implementation-defined conversion above.
\<close>

datatype delay_result = Delay int | Panic_Int64N | Conversion_Unspecified

text \<open>
  The first half of retryDelay: a 429 response with a Retry-After header that Atoi reads
  as a positive number of seconds.  \<open>None\<close> means that the function falls through to the
  exponential backoff.
\<close>

definition retry_after_delay :: "retryConfig \<Rightarrow> http_response option \<Rightarrow> int option" where
  "retry_after_delay cfg resp =
     (case resp of
        None \<Rightarrow> None
      | Some r \<Rightarrow>
          if resp_StatusCode r = 429 then
            (let retryAfter = header_get (resp_Header r) ''Retry-After''
             in if retryAfter \<noteq> [] then
                  (case Atoi retryAfter of
                     None \<Rightarrow> None
                   | Some seconds \<Rightarrow>
                       if seconds > 0 then
                         (let delay = wrap64 (seconds * Second)
                          in Some (if delay > maxDelay cfg then maxDelay cfg else delay))
                       else None)
                else None)
          else None)"

text \<open>The capped exponential delay, before the jitter.\<close>

definition backoff_delay :: "retryConfig \<Rightarrow> int \<Rightarrow> int option" where
  "backoff_delay cfg attempt =
     (case pow2_duration attempt of
        None \<Rightarrow> None
      | Some p \<Rightarrow>
          (let delay = wrap64 (baseDelay cfg * p)
           in Some (if delay > maxDelay cfg then maxDelay cfg else delay)))"

text \<open>
  \<^verbatim>\<open>rand.Int64N(n)\<close> panics for \<open>n \<le> 0\<close> and otherwise returns a number in the half-open
  interval from 0 to \<open>n\<close>.  The number drawn is the argument \<open>r\<close> of the model; the
  theorems assume \<open>0 \<le> r < n\<close> of it.
\<close>

definition Int64N :: "int \<Rightarrow> int \<Rightarrow> int option" where
  "Int64N n r = (if n \<le> 0 then None else Some r)"

definition retryDelay :: "retryConfig \<Rightarrow> int \<Rightarrow> http_response option \<Rightarrow> int \<Rightarrow> delay_result" where
  "retryDelay cfg attempt resp r =
     (case retry_after_delay cfg resp of
        Some delay \<Rightarrow> Delay delay
      | None \<Rightarrow>
          (case backoff_delay cfg attempt of
             None \<Rightarrow> Conversion_Unspecified
           | Some delay \<Rightarrow>
               (case Int64N (go_quot delay 2) r of
                  None \<Rightarrow> Panic_Int64N
                | Some jitter \<Rightarrow>
                    Delay (wrap64 (wrap64 (go_quot delay 2 + go_quot delay 4) + jitter)))))"

section \<open>Client construction (client.go)\<close>

definition defaultTimeout :: int where
  "defaultTimeout = 30 * Second"

definition defaultUserAgent :: string where
  "defaultUserAgent = ''terraform-provider-zenfra/0.1.0''"

record ClientConfig =
  Endpoint :: string
  APIToken :: string
  UserAgent :: string
  Timeout :: int
  MaxRetries :: int

record Client =
  baseURL :: string
  apiToken :: string
  userAgent :: string
  httpTimeout :: int
  retry :: retryConfig

text \<open>\<^verbatim>\<open>strings.TrimRight(s, cutset)\<close>: \<open>s\<close> without its trailing characters that are in the cutset.\<close>

definition TrimRight :: "string \<Rightarrow> string \<Rightarrow> string" where
  "TrimRight s cutset = rev (dropWhile (\<lambda>c. c \<in> set cutset) (rev s))"

definition NewClient :: "ClientConfig \<Rightarrow> string + Client" where
  "NewClient cfg =
     (if Endpoint cfg = [] then Inl ''endpoint is required''
      else if APIToken cfg = [] then Inl ''api_token is required''
      else
        (let userAgent = (if UserAgent cfg = [] then defaultUserAgent else UserAgent cfg);
             timeout = (if Timeout cfg = 0 then defaultTimeout else Timeout cfg);
             retryCfg = (if MaxRetries cfg > 0
                         then defaultRetryConfig\<lparr>maxRetries := MaxRetries cfg\<rparr>
                         else defaultRetryConfig)
         in Inr \<lparr>baseURL = TrimRight (Endpoint cfg) ''/'',
                 apiToken = APIToken cfg,
                 userAgent = userAgent,
                 httpTimeout = timeout,
                 retry = retryCfg\<rparr>))"

section \<open>Typed errors (errors.go)\<close>

record APIError =
  StatusCode :: int
  Message :: string
  RequestID :: string

datatype ctx_error = Canceled | DeadlineExceeded

text \<open>
  The error values the client returns.  The first six constructors are the pointer types
  of errors.go; \<open>ContextError\<close> is \<^verbatim>\<open>ctx.Err()\<close>; \<open>LibraryError\<close> is an error of the
  standard library (transport, JSON encoding, request construction), which is none of
  the typed errors; \<open>Wrapped\<close> is \<^verbatim>\<open>fmt.Errorf("<prefix>: %w", err)\<close>.
\<close>

datatype error =
    PlainAPIError APIError
  | NotFoundError APIError
  | ConflictError APIError
  | UnauthorizedError APIError
  | ForbiddenError APIError
  | ValidationError APIError "string \<rightharpoonup> string"
  | ContextError ctx_error
  | LibraryError string
  | Wrapped string error

text \<open>\<^verbatim>\<open>errors.As\<close> walks the chain of wrapped errors and stops at the first one of the target type.\<close>

fun IsNotFound :: "error \<Rightarrow> bool" where
  "IsNotFound (NotFoundError e) = True"
| "IsNotFound (Wrapped p e) = IsNotFound e"
| "IsNotFound _ = False"

fun IsConflict :: "error \<Rightarrow> bool" where
  "IsConflict (ConflictError e) = True"
| "IsConflict (Wrapped p e) = IsConflict e"
| "IsConflict _ = False"

fun IsUnauthorized :: "error \<Rightarrow> bool" where
  "IsUnauthorized (UnauthorizedError e) = True"
| "IsUnauthorized (Wrapped p e) = IsUnauthorized e"
| "IsUnauthorized _ = False"

fun IsForbidden :: "error \<Rightarrow> bool" where
  "IsForbidden (ForbiddenError e) = True"
| "IsForbidden (Wrapped p e) = IsForbidden e"
| "IsForbidden _ = False"

section \<open>Error classification (client.go, checkResponse)\<close>

text \<open>
  The anonymous struct that checkResponse decodes the body into.  \<^verbatim>\<open>json.Unmarshal\<close> and
  \<^verbatim>\<open>http.StatusText\<close> belong to the standard library and are parameters of the model:
  \<open>unmarshal body\<close> is the pair of "no error was returned" and the struct as the decoder
  left it (members that are absent keep the zero value, the empty string and the empty
  map), \<open>statusText code\<close> is the reason phrase.
\<close>

record errBody =
  body_Error :: string
  body_Message :: string
  body_Fields :: "string \<rightharpoonup> string"

definition checkResponse ::
  "(string \<Rightarrow> bool \<times> errBody) \<Rightarrow> (int \<Rightarrow> string) \<Rightarrow> http_response \<Rightarrow> error option" where
  "checkResponse unmarshal statusText resp =
     (if resp_StatusCode resp \<ge> 200 \<and> resp_StatusCode resp < 300 then None
      else
        (let bodyBytes = resp_Body resp;
             parsed = unmarshal bodyBytes;
             errBody = snd parsed;
             message1 = (if fst parsed then
                           (if body_Message errBody \<noteq> [] then body_Message errBody
                            else if body_Error errBody \<noteq> [] then body_Error errBody
                            else [])
                         else []);
             message2 = (if message1 = [] then statusText (resp_StatusCode resp) else message1);
             apiErr = \<lparr>StatusCode = resp_StatusCode resp,
                       Message = message2,
                       RequestID = header_get (resp_Header resp) ''X-Request-ID''\<rparr>
         in Some
              (if resp_StatusCode resp = 404 then NotFoundError apiErr
               else if resp_StatusCode resp = 409 then ConflictError apiErr
               else if resp_StatusCode resp = 401 then UnauthorizedError apiErr
               else if resp_StatusCode resp = 403 then ForbiddenError apiErr
               else if resp_StatusCode resp = 400 \<or> resp_StatusCode resp = 422
                    then ValidationError apiErr (body_Fields errBody)
               else PlainAPIError apiErr)))"

section \<open>Request execution (client.go, doRequest and doJSON)\<close>

subsection \<open>The world outside the client\<close>

text \<open>
  What one call observes of its surroundings, attempt by attempt (attempts count from 0):
  whether \<^verbatim>\<open>http.NewRequestWithContext\<close> accepts the method and URL, what
  \<^verbatim>\<open>httpClient.Do\<close> yields, the number \<^verbatim>\<open>rand.Int64N\<close> draws, and which case of the
  \<^verbatim>\<open>select\<close> in sleepWithContext fires.
\<close>

datatype round_trip =
    RoundTripError string "ctx_error option"
  | RoundTripResponse http_response

datatype sleep_event = TimerFired | ContextDone ctx_error

record world =
  new_request :: "string \<Rightarrow> string \<Rightarrow> string option"
  round_trips :: "nat \<Rightarrow> round_trip"
  jitter_draws :: "nat \<Rightarrow> int"
  sleep_events :: "nat \<Rightarrow> sleep_event"

text \<open>
  sleepWithContext: the timer is started with the duration \<open>d\<close>; the call returns
  \<^verbatim>\<open>ctx.Err()\<close> when the context is done first and nil when the timer fires first.
\<close>

definition sleepWithContext :: "sleep_event \<Rightarrow> int \<Rightarrow> error option" where
  "sleepWithContext ev d = (case ev of ContextDone e \<Rightarrow> Some (ContextError e) | TimerFired \<Rightarrow> None)"

subsection \<open>Requests and results\<close>

record http_request =
  req_method :: string
  req_url :: string
  req_header :: "string \<rightharpoonup> string"
  req_body :: "string option"

text \<open>
  The result of a call: what it returned, the requests it handed to the transport, in
  order, and the durations of the waits it started, in order.  \<open>Nil_Nil\<close> is the return
  of a nil response together with a nil error.
\<close>

datatype 'a outcome = Done 'a | Failed error | Nil_Nil | Panicked | Unspecified

record 'a run =
  outcome :: "'a outcome"
  requests :: "http_request list"
  waits :: "int list"

definition stop :: "'a outcome \<Rightarrow> 'a run" where
  "stop out = \<lparr>outcome = out, requests = [], waits = []\<rparr>"

definition sent :: "http_request \<Rightarrow> 'a run \<Rightarrow> 'a run" where
  "sent req r = r\<lparr>requests := req # requests r\<rparr>"

definition waited :: "int \<Rightarrow> 'a run \<Rightarrow> 'a run" where
  "waited d r = r\<lparr>waits := d # waits r\<rparr>"

subsection \<open>Formatting with %d\<close>

definition digit_char :: "nat \<Rightarrow> char" where
  "digit_char n = ''0123456789'' ! n"

fun nat_dec :: "nat \<Rightarrow> string" where
  "nat_dec n = (if n < 10 then [digit_char n] else nat_dec (n div 10) @ [digit_char (n mod 10)])"

declare nat_dec.simps [simp del]

definition fmt_d :: "int \<Rightarrow> string" where
  "fmt_d i = (if i < 0 then CHR ''-'' # nat_dec (nat (- i)) else nat_dec (nat i))"

subsection \<open>doRequest\<close>

text \<open>
  The request body is \<open>None\<close> for a nil body and otherwise the result of
  \<^verbatim>\<open>json.Marshal\<close> on it: \<open>Inl\<close> the error, \<open>Inr\<close> the bytes.
  The encoding is a function of the body, so the encoding that the loop repeats before a
  retry gives what the first one gave.
\<close>

type_synonym request_body = "(string + string) option"

definition mk_request :: "Client \<Rightarrow> string \<Rightarrow> string \<Rightarrow> request_body \<Rightarrow> http_request" where
  "mk_request c method url body =
     \<lparr>req_method = method,
      req_url = url,
      req_header =
        (if body \<noteq> None
         then [''Authorization'' \<mapsto> ''Bearer '' @ apiToken c, ''User-Agent'' \<mapsto> userAgent c,
               ''Content-Type'' \<mapsto> ''application/json'', ''Accept'' \<mapsto> ''application/json'']
         else [''Authorization'' \<mapsto> ''Bearer '' @ apiToken c, ''User-Agent'' \<mapsto> userAgent c,
               ''Accept'' \<mapsto> ''application/json'']),
      req_body = (case body of Some (Inr jsonBytes) \<Rightarrow> Some jsonBytes | _ \<Rightarrow> None)\<rparr>"

text \<open>The code after the loop ("All retries exhausted").\<close>

definition exhausted :: "Client \<Rightarrow> http_response option \<Rightarrow> error option \<Rightarrow> http_response outcome" where
  "exhausted c lastResp lastErr =
     (case lastResp of
        Some r \<Rightarrow>
          Failed (PlainAPIError
            \<lparr>StatusCode = resp_StatusCode r,
             Message = ''request failed after '' @ fmt_d (maxRetries (retry c))
                       @ '' retries with status '' @ fmt_d (resp_StatusCode r),
             RequestID = []\<rparr>)
      | None \<Rightarrow> (case lastErr of Some e \<Rightarrow> Failed e | None \<Rightarrow> Nil_Nil))"

text \<open>
  The loop \<^verbatim>\<open>for attempt := range c.retry.maxRetries + 1\<close>, with the number of iterations
  that are left as the recursion argument.
\<close>

fun attempt_loop ::
  "Client \<Rightarrow> world \<Rightarrow> string \<Rightarrow> string \<Rightarrow> request_body \<Rightarrow> nat \<Rightarrow> nat
     \<Rightarrow> http_response option \<Rightarrow> error option \<Rightarrow> http_response run" where
  "attempt_loop c w method path body 0 attempt lastResp lastErr =
     stop (exhausted c lastResp lastErr)"
| "attempt_loop c w method path body (Suc n) attempt lastResp lastErr =
     (case new_request w method (baseURL c @ path) of
        Some m \<Rightarrow> stop (Failed (Wrapped ''creating request'' (LibraryError m)))
      | None \<Rightarrow>
          sent (mk_request c method (baseURL c @ path) body)
            (case round_trips w attempt of
               RoundTripError m ctxErr \<Rightarrow>
                 if ctxErr \<noteq> None
                 then stop (Failed (Wrapped ''executing request'' (LibraryError m)))
                 else if int attempt < maxRetries (retry c) then
                   (case retryDelay (retry c) (int attempt) None (jitter_draws w attempt) of
                      Delay d \<Rightarrow>
                        waited d
                          (case sleepWithContext (sleep_events w attempt) d of
                             Some sleepErr \<Rightarrow> stop (Failed sleepErr)
                           | None \<Rightarrow>
                               attempt_loop c w method path body n (Suc attempt) lastResp
                                 (Some (Wrapped ''executing request'' (LibraryError m))))
                    | Panic_Int64N \<Rightarrow> stop Panicked
                    | Conversion_Unspecified \<Rightarrow> stop Unspecified)
                 else stop (Failed (Wrapped ''executing request'' (LibraryError m)))
             | RoundTripResponse resp \<Rightarrow>
                 if \<not> isRetryableStatus (resp_StatusCode resp) then stop (Done resp)
                 else if int attempt < maxRetries (retry c) then
                   (case retryDelay (retry c) (int attempt) (Some resp) (jitter_draws w attempt) of
                      Delay d \<Rightarrow>
                        waited d
                          (case sleepWithContext (sleep_events w attempt) d of
                             Some sleepErr \<Rightarrow> stop (Failed sleepErr)
                           | None \<Rightarrow>
                               attempt_loop c w method path body n (Suc attempt) (Some resp) lastErr)
                    | Panic_Int64N \<Rightarrow> stop Panicked
                    | Conversion_Unspecified \<Rightarrow> stop Unspecified)
                 else attempt_loop c w method path body n (Suc attempt) (Some resp) lastErr))"

definition doRequest ::
  "Client \<Rightarrow> world \<Rightarrow> string \<Rightarrow> string \<Rightarrow> request_body \<Rightarrow> http_response run" where
  "doRequest c w method path body =
     (case body of
        Some (Inl m) \<Rightarrow> stop (Failed (Wrapped ''marshaling request body'' (LibraryError m)))
      | _ \<Rightarrow>
          attempt_loop c w method path body
            (nat (wrap64 (maxRetries (retry c) + 1))) 0 None None)"

subsection \<open>doJSON\<close>

text \<open>
  \<open>result\<close> is \<open>None\<close> for a nil result and otherwise the decoder of the caller's result
  type (\<^verbatim>\<open>json.Unmarshal\<close> into it; \<open>None\<close> is its error).  Dereferencing the nil
  response of \<open>Nil_Nil\<close> panics.
\<close>

definition doJSON ::
  "(string \<Rightarrow> bool \<times> errBody) \<Rightarrow> (int \<Rightarrow> string) \<Rightarrow> Client \<Rightarrow> world \<Rightarrow> string \<Rightarrow> string
     \<Rightarrow> request_body \<Rightarrow> (string \<Rightarrow> 'a option) option \<Rightarrow> 'a option run" where
  "doJSON unmarshal statusText c w method path body result =
     (let r = doRequest c w method path body
      in \<lparr>outcome =
            (case outcome r of
               Failed err \<Rightarrow> Failed err
             | Nil_Nil \<Rightarrow> Panicked
             | Panicked \<Rightarrow> Panicked
             | Unspecified \<Rightarrow> Unspecified
             | Done resp \<Rightarrow>
                 (case checkResponse unmarshal statusText resp of
                    Some err \<Rightarrow> Failed err
                  | None \<Rightarrow>
                      (case result of
                         None \<Rightarrow> Done None
                       | Some decode \<Rightarrow>
                           (case decode (resp_Body resp) of
                              None \<Rightarrow>
                                Failed (Wrapped
                                  (''unmarshaling response (status ''
                                     @ fmt_d (resp_StatusCode resp) @ '')'')
                                  (LibraryError ''json''))
                            | Some v \<Rightarrow> Done (Some v))))),
          requests = requests r,
          waits = waits r\<rparr>)"

section \<open>Notions used to state the properties\<close>

subsection \<open>Kinds of errors\<close>

datatype error_kind =
  KindNotFound | KindConflict | KindUnauthorized | KindForbidden | KindValidation
  | KindGeneric | KindOther

text \<open>The kind of an error value is the Go type it has.\<close>

fun kind_of :: "error \<Rightarrow> error_kind" where
  "kind_of (PlainAPIError e) = KindGeneric"
| "kind_of (NotFoundError e) = KindNotFound"
| "kind_of (ConflictError e) = KindConflict"
| "kind_of (UnauthorizedError e) = KindUnauthorized"
| "kind_of (ForbiddenError e) = KindForbidden"
| "kind_of (ValidationError e fs) = KindValidation"
| "kind_of (ContextError e) = KindOther"
| "kind_of (LibraryError m) = KindOther"
| "kind_of (Wrapped p e) = KindOther"

text \<open>The APIError embedded in a typed error, and the field map of a validation error.\<close>

fun api_error :: "error \<Rightarrow> APIError option" where
  "api_error (PlainAPIError e) = Some e"
| "api_error (NotFoundError e) = Some e"
| "api_error (ConflictError e) = Some e"
| "api_error (UnauthorizedError e) = Some e"
| "api_error (ForbiddenError e) = Some e"
| "api_error (ValidationError e fs) = Some e"
| "api_error (ContextError e) = None"
| "api_error (LibraryError m) = None"
| "api_error (Wrapped p e) = None"

fun validation_fields :: "error \<Rightarrow> (string \<rightharpoonup> string) option" where
  "validation_fields (ValidationError e fs) = Some fs"
| "validation_fields _ = None"

text \<open>
  The table of the specification (section 4.3): the kind that belongs to a status code.
  It follows the words of the specification, not the code.
\<close>

definition spec_kind :: "int \<Rightarrow> error_kind" where
  "spec_kind status =
     (if status = 404 then KindNotFound
      else if status = 409 then KindConflict
      else if status = 401 then KindUnauthorized
      else if status = 403 then KindForbidden
      else if status = 400 \<or> status = 422 then KindValidation
      else KindGeneric)"

text \<open>
  The message precedence of the specification: the \<open>message\<close> member of the parsed body
  if it is there and not empty, else the \<open>error\<close> member if it is there and not empty,
  else the status text.  It follows the words of the specification, not the code.
\<close>

definition spec_message ::
  "(string \<Rightarrow> bool \<times> errBody) \<Rightarrow> (int \<Rightarrow> string) \<Rightarrow> http_response \<Rightarrow> string" where
  "spec_message unmarshal statusText resp =
     (if fst (unmarshal (resp_Body resp)) \<and> body_Message (snd (unmarshal (resp_Body resp))) \<noteq> []
      then body_Message (snd (unmarshal (resp_Body resp)))
      else if fst (unmarshal (resp_Body resp)) \<and> body_Error (snd (unmarshal (resp_Body resp))) \<noteq> []
      then body_Error (snd (unmarshal (resp_Body resp)))
      else statusText (resp_StatusCode resp))"

text \<open>The body of the 422 response that the specification gives as its example.\<close>

definition validation_example_body :: string where
  "validation_example_body =
     ''{\"error\":\"validation_error\",\"message\":\"name is required\",\"fields\":{\"name\":\"required\"}}''"

text \<open>
  A decoder that reads the example body as \<^verbatim>\<open>json.Unmarshal\<close> does and rejects every
  other body; it serves as the concrete decoder of the examples below.
\<close>

definition example_unmarshal :: "string \<Rightarrow> bool \<times> errBody" where
  "example_unmarshal b =
     (if b = validation_example_body
      then (True, \<lparr>body_Error = ''validation_error'', body_Message = ''name is required'',
                   body_Fields = [''name'' \<mapsto> ''required'']\<rparr>)
      else (False, \<lparr>body_Error = [], body_Message = [], body_Fields = Map.empty\<rparr>))"

subsection \<open>Attempts that end in a wait\<close>

text \<open>
  \<open>round_delay c w i\<close> is the duration of the wait that attempt \<open>i\<close> starts, when it
  starts one: the attempt is not the last one, and it met a transport error under a live
  context or a response with a retryable status, and retryDelay returned.
\<close>

definition round_delay :: "Client \<Rightarrow> world \<Rightarrow> nat \<Rightarrow> int option" where
  "round_delay c w i =
     (if int i < maxRetries (retry c) then
        (case round_trips w i of
           RoundTripError m ctxErr \<Rightarrow>
             if ctxErr = None then
               (case retryDelay (retry c) (int i) None (jitter_draws w i) of
                  Delay d \<Rightarrow> Some d | _ \<Rightarrow> None)
             else None
         | RoundTripResponse resp \<Rightarrow>
             if isRetryableStatus (resp_StatusCode resp) then
               (case retryDelay (retry c) (int i) (Some resp) (jitter_draws w i) of
                  Delay d \<Rightarrow> Some d | _ \<Rightarrow> None)
             else None)
      else None)"

text \<open>The variables lastResp and lastErr after the attempts \<open>a, \<dots>, a + j - 1\<close>.\<close>

fun carried_resp :: "world \<Rightarrow> nat \<Rightarrow> nat \<Rightarrow> http_response option \<Rightarrow> http_response option" where
  "carried_resp w a 0 lastResp = lastResp"
| "carried_resp w a (Suc j) lastResp =
     carried_resp w (Suc a) j
       (case round_trips w a of RoundTripResponse resp \<Rightarrow> Some resp | _ \<Rightarrow> lastResp)"

fun carried_err :: "world \<Rightarrow> nat \<Rightarrow> nat \<Rightarrow> error option \<Rightarrow> error option" where
  "carried_err w a 0 lastErr = lastErr"
| "carried_err w a (Suc j) lastErr =
     carried_err w (Suc a) j
       (case round_trips w a of
          RoundTripError m ctxErr \<Rightarrow> Some (Wrapped ''executing request'' (LibraryError m))
        | _ \<Rightarrow> lastErr)"

subsection \<open>Runs and example worlds\<close>

text \<open>A request body that is nil or that \<^verbatim>\<open>json.Marshal\<close> encodes.\<close>

definition marshals :: "request_body \<Rightarrow> bool" where
  "marshals body = (case body of Some (Inl m) \<Rightarrow> False | _ \<Rightarrow> True)"

text \<open>A run that follows attempts which each sent the request \<open>req\<close> and then waited; \<open>ds\<close> are the durations of the waits.\<close>

definition after_rounds :: "http_request \<Rightarrow> int list \<Rightarrow> 'a run \<Rightarrow> 'a run" where
  "after_rounds req ds r =
     r\<lparr>requests := replicate (length ds) req @ requests r, waits := ds @ waits r\<rparr>"

text \<open>The durations of the waits of the attempts \<open>a, \<dots>, a + j - 1\<close>.\<close>

definition round_delays :: "Client \<Rightarrow> world \<Rightarrow> nat \<Rightarrow> nat \<Rightarrow> int list" where
  "round_delays c w a j =
     map (\<lambda>i. case round_delay c w i of Some d \<Rightarrow> d | None \<Rightarrow> 0) [a..<a + j]"

text \<open>A response with a status code, no headers and an empty body.\<close>

definition status_response :: "int \<Rightarrow> http_response" where
  "status_response s = \<lparr>resp_StatusCode = s, resp_Header = Map.empty, resp_Body = []\<rparr>"

text \<open>A world in which every request can be built and every draw of the jitter is 0.\<close>

definition scripted_world :: "(nat \<Rightarrow> round_trip) \<Rightarrow> (nat \<Rightarrow> sleep_event) \<Rightarrow> world" where
  "scripted_world rts evs =
     \<lparr>new_request = (\<lambda>m u. None), round_trips = rts, jitter_draws = (\<lambda>i. 0),
      sleep_events = evs\<rparr>"

text \<open>A server that answers 503 to the first \<open>n\<close> requests and 200 from then on, under a live context.\<close>

definition outage_world :: "nat \<Rightarrow> world" where
  "outage_world n =
     scripted_world (\<lambda>i. RoundTripResponse (status_response (if i < n then 503 else 200)))
       (\<lambda>i. TimerFired)"

text \<open>A server that answers 503 to every request, under a live context.\<close>

definition down_world :: world where
  "down_world =
     scripted_world (\<lambda>i. RoundTripResponse (status_response 503)) (\<lambda>i. TimerFired)"

text \<open>A server that answers 503 to every request; the first wait runs to its end and the context is cancelled during every later wait.\<close>

definition cancelled_world :: world where
  "cancelled_world =
     scripted_world (\<lambda>i. RoundTripResponse (status_response 503))
       (\<lambda>i. if i = 0 then TimerFired else ContextDone Canceled)"

text \<open>A configuration with the example endpoint of the specification and a given MaxRetries, and the client that NewClient builds from it when MaxRetries is positive.\<close>

definition example_config :: "int \<Rightarrow> ClientConfig" where
  "example_config n =
     \<lparr>Endpoint = ''https://api.example.com/'', APIToken = ''tok'', UserAgent = [],
      Timeout = 0, MaxRetries = n\<rparr>"

definition example_client :: "int \<Rightarrow> Client" where
  "example_client n =
     \<lparr>baseURL = ''https://api.example.com'', apiToken = ''tok'',
      userAgent = defaultUserAgent, httpTimeout = defaultTimeout,
      retry = \<lparr>baseDelay = defaultBaseDelay, maxDelay = defaultMaxDelay, maxRetries = n\<rparr>\<rparr>"

text \<open>A server that answers every request with the same status, under a live context.\<close>

definition status_world :: "int \<Rightarrow> world" where
  "status_world s =
     scripted_world (\<lambda>i. RoundTripResponse (status_response s)) (\<lambda>i. TimerFired)"

section \<open>Arithmetic of durations\<close>

lemmas duration_consts = Millisecond_def Second_def defaultBaseDelay_def defaultMaxDelay_def
  defaultMaxRetries_def defaultRetryConfig_def

lemma go_quot_pos: "0 \<le> a \<Longrightarrow> 0 < b \<Longrightarrow> go_quot a b = a div b"
  by (simp add: go_quot_def sgn_if)

lemma go_quot_2_pos_iff: "0 < go_quot a 2 \<longleftrightarrow> 2 \<le> a"
  by (auto simp add: go_quot_def sgn_if zero_less_mult_iff split: if_splits)

lemma wrap64_id: "- 9223372036854775808 \<le> x \<Longrightarrow> x < 9223372036854775808 \<Longrightarrow> wrap64 x = x"
  by (simp add: wrap64_def)

lemma wrap64_lower: "- 9223372036854775808 \<le> wrap64 x"
  unfolding wrap64_def
  using pos_mod_sign[of 18446744073709551616 "x + 9223372036854775808"] by simp

lemma wrap64_le: "- 9223372036854775808 \<le> x \<Longrightarrow> wrap64 x \<le> x"
  unfolding wrap64_def
  using zmod_le_nonneg_dividend[of "x + 9223372036854775808" 18446744073709551616] by simp

lemma backoff_delay_le: "backoff_delay cfg attempt = Some d \<Longrightarrow> d \<le> maxDelay cfg"
  by (auto simp add: backoff_delay_def Let_def split: option.splits if_splits)

section \<open>The retry delay\<close>

text \<open>
  Claim C1, as stated, fails: the jitter is added after the cap.  With the default
  configuration the capped delay of attempt 6 is the maximum of 30 s, the draw
  14999999999 is below half of it, and the delay returned is 37.499999999 s.
\<close>

theorem retryDelay_exceeds_maxDelay:
  "backoff_delay defaultRetryConfig 6 = Some (maxDelay defaultRetryConfig)
   \<and> (0::int) \<le> 14999999999
   \<and> 14999999999 < go_quot (maxDelay defaultRetryConfig) 2
   \<and> retryDelay defaultRetryConfig 6 None 14999999999 = Delay 37499999999
   \<and> 37499999999 > maxDelay defaultRetryConfig"
  by (simp add: retryDelay_def retry_after_delay_def backoff_delay_def pow2_duration_def
      Int64N_def go_quot_def wrap64_def duration_consts)

text \<open>
  Claim C1, amended: on the exponential-backoff path, for every configuration, every
  attempt number with a capped delay \<open>d\<close> and every draw \<open>r\<close> that \<^verbatim>\<open>rand.Int64N\<close> can
  return (\<open>0 \<le> r < d / 2\<close>), retryDelay returns a delay that stays below five quarters
  of the configured maximum delay.
\<close>

theorem retryDelay_backoff_bound:
  assumes path: "retry_after_delay cfg resp = None"
    and cap: "backoff_delay cfg attempt = Some d"
    and r0: "0 \<le> r" and r1: "r < go_quot d 2"
  shows "\<exists>t. retryDelay cfg attempt resp r = Delay t \<and> 4 * t < 5 * maxDelay cfg"
proof -
  from r0 r1 have d2: "2 \<le> d" using go_quot_2_pos_iff[of d] by simp
  have q2: "go_quot d 2 = d div 2" and q4: "go_quot d 4 = d div 4"
    using d2 by (simp_all add: go_quot_pos)
  define a where "a = wrap64 (d div 2 + d div 4)"
  have a_le: "a \<le> d div 2 + d div 4"
    unfolding a_def using d2 by (intro wrap64_le) simp
  have a_lo: "- 9223372036854775808 \<le> a" unfolding a_def by (rule wrap64_lower)
  have t_le: "wrap64 (a + r) \<le> a + r" using a_lo r0 by (intro wrap64_le) simp
  have run: "retryDelay cfg attempt resp r = Delay (wrap64 (a + r))"
    using path cap d2 by (simp add: retryDelay_def Int64N_def q2 q4 a_def)
  have "4 * wrap64 (a + r) \<le> 4 * (d div 2 + d div 4 + r)" using t_le a_le by simp
  also have "\<dots> < 5 * d" using r1 q2 by simp
  also have "\<dots> \<le> 5 * maxDelay cfg" using backoff_delay_le[OF cap] by simp
  finally show ?thesis using run by blast
qed

theorem retryDelay_backoff_bound_witness:
  "retry_after_delay defaultRetryConfig None = None
   \<and> backoff_delay defaultRetryConfig 6 = Some 30000000000
   \<and> (0::int) \<le> 14999999999 \<and> 14999999999 < go_quot 30000000000 2
   \<and> (\<exists>t. retryDelay defaultRetryConfig 6 None 14999999999 = Delay t
          \<and> 4 * t < 5 * maxDelay defaultRetryConfig)"
proof -
  have a: "retry_after_delay defaultRetryConfig None = None"
    by (simp add: retry_after_delay_def)
  have b: "backoff_delay defaultRetryConfig 6 = Some 30000000000"
    by (simp add: backoff_delay_def pow2_duration_def wrap64_def duration_consts)
  have c: "(0::int) \<le> 14999999999" by simp
  have d: "(14999999999::int) < go_quot 30000000000 2" by (simp add: go_quot_def)
  show ?thesis using retryDelay_backoff_bound[OF a b c d] a b c d by blast
qed

text \<open>
  The Retry-After path where the product of the seconds and \<^verbatim>\<open>time.Second\<close> fits an
  int64: the delay is the smaller of that product and the maximum delay, and no jitter
  is drawn.
\<close>

lemma retry_after_delay_exact:
  assumes "resp_StatusCode r = 429"
    and "Atoi (header_get (resp_Header r) ''Retry-After'') = Some n"
    and "0 < n" and "n \<le> 9223372036"
  shows "retryDelay cfg attempt (Some r) x = Delay (min (n * Second) (maxDelay cfg))"
proof -
  have ne: "header_get (resp_Header r) ''Retry-After'' \<noteq> []"
    using assms(2) by (auto simp add: Atoi_def)
  have "wrap64 (n * Second) = n * Second"
    using assms(3,4) by (intro wrap64_id) (simp_all add: Second_def)
  then show ?thesis
    using assms ne by (simp add: retryDelay_def retry_after_delay_def Let_def min_def)
qed

text \<open>
  Claim C5 at a Retry-After of 9223372037 seconds: Atoi reads the header as that positive
  number, the multiplication by \<^verbatim>\<open>time.Second\<close> wraps around, and retryDelay returns a
  negative duration, where the smaller of N seconds and the maximum delay is 30 s.
\<close>

theorem retryDelay_retry_after_overflow:
  "Atoi ''9223372037'' = Some 9223372037
   \<and> retryDelay defaultRetryConfig attempt
       (Some \<lparr>resp_StatusCode = 429, resp_Header = [''Retry-After'' \<mapsto> ''9223372037''],
              resp_Body = []\<rparr>) r
     = Delay (- 9223372036709551616)
   \<and> min (9223372037 * Second) (maxDelay defaultRetryConfig) = 30000000000"
proof -
  have at: "Atoi ''9223372037'' = Some 9223372037"
    by (simp add: Atoi_def digit_val_def in_int_range_def)
  show ?thesis
    by (simp add: at retryDelay_def retry_after_delay_def header_get_def wrap64_def duration_consts)
qed

section \<open>Client construction\<close>

text \<open>
  Claim C10: with an endpoint and a token, NewClient succeeds; a MaxRetries of zero or
  less leaves the retry budget at the default of 3, only a strictly positive MaxRetries
  replaces it, and so no client has a retry budget of zero.
\<close>

theorem NewClient_retry_budget:
  assumes "Endpoint cfg \<noteq> []" and "APIToken cfg \<noteq> []"
  shows "\<exists>c. NewClient cfg = Inr c
           \<and> (MaxRetries cfg \<le> 0 \<longrightarrow> maxRetries (retry c) = 3)
           \<and> (0 < MaxRetries cfg \<longrightarrow> maxRetries (retry c) = MaxRetries cfg)
           \<and> maxRetries (retry c) \<noteq> 0"
  using assms by (auto simp add: NewClient_def Let_def duration_consts)

theorem NewClient_retry_budget_witness:
  "Endpoint \<lparr>Endpoint = ''https://api.example.com'', APIToken = ''tok'', UserAgent = [],
             Timeout = 0, MaxRetries = 0\<rparr> \<noteq> []
   \<and> APIToken \<lparr>Endpoint = ''https://api.example.com'', APIToken = ''tok'', UserAgent = [],
               Timeout = 0, MaxRetries = 0\<rparr> \<noteq> []
   \<and> (\<exists>c. NewClient \<lparr>Endpoint = ''https://api.example.com'', APIToken = ''tok'',
                      UserAgent = [], Timeout = 0, MaxRetries = 0\<rparr> = Inr c
          \<and> maxRetries (retry c) = 3)"
  using NewClient_retry_budget
    [of "\<lparr>Endpoint = ''https://api.example.com'', APIToken = ''tok'', UserAgent = [],
          Timeout = 0, MaxRetries = 0\<rparr>"]
  by auto

section \<open>Error classification\<close>

text \<open>
  Claim C6: for a response whose status is not 2xx, checkResponse returns an error whose
  kind is the one the table of the specification gives for the status code alone; the
  error carries the status code, a validation error carries the field map of the parsed
  body, and each of IsNotFound, IsConflict, IsUnauthorized and IsForbidden holds of the
  error exactly when the status is 404, 409, 401 and 403.
\<close>

theorem checkResponse_kind:
  assumes "\<not> (200 \<le> resp_StatusCode resp \<and> resp_StatusCode resp < 300)"
  shows "\<exists>e a. checkResponse unmarshal statusText resp = Some e
           \<and> kind_of e = spec_kind (resp_StatusCode resp)
           \<and> api_error e = Some a \<and> StatusCode a = resp_StatusCode resp
           \<and> (kind_of e = KindValidation \<longrightarrow>
                validation_fields e = Some (body_Fields (snd (unmarshal (resp_Body resp)))))
           \<and> (IsNotFound e \<longleftrightarrow> resp_StatusCode resp = 404)
           \<and> (IsConflict e \<longleftrightarrow> resp_StatusCode resp = 409)
           \<and> (IsUnauthorized e \<longleftrightarrow> resp_StatusCode resp = 401)
           \<and> (IsForbidden e \<longleftrightarrow> resp_StatusCode resp = 403)"
  using assms by (simp add: checkResponse_def Let_def spec_kind_def)

theorem checkResponse_kind_witness:
  "\<not> (200 \<le> resp_StatusCode \<lparr>resp_StatusCode = 404, resp_Header = Map.empty, resp_Body = ''gone''\<rparr>
        \<and> resp_StatusCode \<lparr>resp_StatusCode = 404, resp_Header = Map.empty, resp_Body = ''gone''\<rparr> < 300)
   \<and> (\<exists>e. checkResponse
              (\<lambda>b. (False, \<lparr>body_Error = [], body_Message = [], body_Fields = Map.empty\<rparr>))
              (\<lambda>s. ''Not Found'')
              \<lparr>resp_StatusCode = 404, resp_Header = Map.empty, resp_Body = ''gone''\<rparr> = Some e
          \<and> kind_of e = KindNotFound \<and> IsNotFound e \<and> \<not> IsConflict e
          \<and> \<not> IsUnauthorized e \<and> \<not> IsForbidden e)"
  using checkResponse_kind
    [of "\<lparr>resp_StatusCode = 404, resp_Header = Map.empty, resp_Body = ''gone''\<rparr>"
        "\<lambda>b. (False, \<lparr>body_Error = [], body_Message = [], body_Fields = Map.empty\<rparr>)"
        "\<lambda>s. ''Not Found''"]
  by (auto simp add: spec_kind_def)

text \<open>
  Claim C7: for a response whose status is not 2xx, the message of the classified error
  is the \<open>message\<close> member of the parsed body if it is not empty, else the \<open>error\<close>
  member if it is not empty, else the status text; a body that does not parse gives the
  status text; and the 422 response with the example body of the specification, decoded
  as \<^verbatim>\<open>json.Unmarshal\<close> decodes it, gives a validation error with the message
  "name is required" and the field map that sends "name" to "required".
\<close>

theorem checkResponse_message:
  "(\<not> (200 \<le> resp_StatusCode resp \<and> resp_StatusCode resp < 300) \<longrightarrow>
      (\<exists>e a. checkResponse unmarshal statusText resp = Some e \<and> api_error e = Some a
             \<and> Message a = spec_message unmarshal statusText resp
             \<and> (\<not> fst (unmarshal (resp_Body resp)) \<longrightarrow>
                   Message a = statusText (resp_StatusCode resp))))
   \<and> (unmarshal validation_example_body
         = (True, \<lparr>body_Error = ''validation_error'', body_Message = ''name is required'',
                   body_Fields = [''name'' \<mapsto> ''required'']\<rparr>) \<longrightarrow>
        checkResponse unmarshal statusText
          \<lparr>resp_StatusCode = 422, resp_Header = hdr, resp_Body = validation_example_body\<rparr>
        = Some (ValidationError
                 \<lparr>StatusCode = 422, Message = ''name is required'',
                  RequestID = header_get hdr ''X-Request-ID''\<rparr>
                 [''name'' \<mapsto> ''required'']))"
  by (simp add: checkResponse_def Let_def spec_message_def)

theorem checkResponse_message_witness:
  "\<not> (200 \<le> resp_StatusCode \<lparr>resp_StatusCode = 500, resp_Header = Map.empty, resp_Body = ''<html>''\<rparr>
        \<and> resp_StatusCode \<lparr>resp_StatusCode = 500, resp_Header = Map.empty, resp_Body = ''<html>''\<rparr> < 300)
   \<and> \<not> fst (example_unmarshal (resp_Body \<lparr>resp_StatusCode = 500, resp_Header = Map.empty, resp_Body = ''<html>''\<rparr>))
   \<and> checkResponse example_unmarshal (\<lambda>s. ''Internal Server Error'')
        \<lparr>resp_StatusCode = 500, resp_Header = Map.empty, resp_Body = ''<html>''\<rparr>
      = Some (PlainAPIError \<lparr>StatusCode = 500, Message = ''Internal Server Error'', RequestID = []\<rparr>)
   \<and> example_unmarshal validation_example_body
      = (True, \<lparr>body_Error = ''validation_error'', body_Message = ''name is required'',
                body_Fields = [''name'' \<mapsto> ''required'']\<rparr>)
   \<and> checkResponse example_unmarshal (\<lambda>s. ''Internal Server Error'')
        \<lparr>resp_StatusCode = 422, resp_Header = Map.empty, resp_Body = validation_example_body\<rparr>
      = Some (ValidationError
               \<lparr>StatusCode = 422, Message = ''name is required'', RequestID = []\<rparr>
               [''name'' \<mapsto> ''required''])"
proof -
  have ne: "''<html>'' \<noteq> validation_example_body"
    by (simp add: validation_example_body_def)
  have u1: "example_unmarshal ''<html>''
            = (False, \<lparr>body_Error = [], body_Message = [], body_Fields = Map.empty\<rparr>)"
    using ne by (simp add: example_unmarshal_def)
  have u2: "example_unmarshal validation_example_body
      = (True, \<lparr>body_Error = ''validation_error'', body_Message = ''name is required'',
                body_Fields = [''name'' \<mapsto> ''required'']\<rparr>)"
    by (simp add: example_unmarshal_def)
  have first: "checkResponse example_unmarshal (\<lambda>s. ''Internal Server Error'')
        \<lparr>resp_StatusCode = 500, resp_Header = Map.empty, resp_Body = ''<html>''\<rparr>
      = Some (PlainAPIError \<lparr>StatusCode = 500, Message = ''Internal Server Error'', RequestID = []\<rparr>)"
    using checkResponse_message
      [of "\<lparr>resp_StatusCode = 500, resp_Header = Map.empty, resp_Body = ''<html>''\<rparr>"
          example_unmarshal "\<lambda>s. ''Internal Server Error''" Map.empty] u1
    by (auto simp add: checkResponse_def header_get_def)
  have second: "checkResponse example_unmarshal (\<lambda>s. ''Internal Server Error'')
        \<lparr>resp_StatusCode = 422, resp_Header = Map.empty, resp_Body = validation_example_body\<rparr>
      = Some (ValidationError
               \<lparr>StatusCode = 422, Message = ''name is required'', RequestID = []\<rparr>
               [''name'' \<mapsto> ''required''])"
    using checkResponse_message
      [of "\<lparr>resp_StatusCode = 500, resp_Header = Map.empty, resp_Body = ''<html>''\<rparr>"
          example_unmarshal "\<lambda>s. ''Internal Server Error''" Map.empty] u2
    by (simp add: header_get_def)
  show ?thesis using first second u1 u2 by simp
qed

section \<open>The retry loop\<close>

lemma after_rounds_Nil: "after_rounds req [] r = r"
  by (simp add: after_rounds_def)

lemma after_rounds_Cons:
  "sent req (waited d (after_rounds req ds r)) = after_rounds req (d # ds) r"
  by (simp add: after_rounds_def sent_def waited_def)

lemma round_delays_0: "round_delays c w a 0 = []"
  by (simp add: round_delays_def)

lemma round_delays_Suc:
  "round_delay c w a = Some d \<Longrightarrow> round_delays c w a (Suc j) = d # round_delays c w (Suc a) j"
  by (simp add: round_delays_def upt_rec)

lemma attempt_loop_round:
  assumes "new_request w method (baseURL c @ path) = None"
    and "round_delay c w a = Some d"
    and "sleep_events w a = TimerFired"
  shows "attempt_loop c w method path body (Suc n) a lr le
         = sent (mk_request c method (baseURL c @ path) body)
             (waited d (attempt_loop c w method path body n (Suc a)
                          (carried_resp w a (Suc 0) lr) (carried_err w a (Suc 0) le)))"
  using assms
  by (auto simp add: round_delay_def sleepWithContext_def
      split: if_splits round_trip.splits delay_result.splits)

lemma attempt_loop_cancelled:
  assumes "new_request w method (baseURL c @ path) = None"
    and "round_delay c w a = Some d"
    and "sleep_events w a = ContextDone e"
  shows "attempt_loop c w method path body (Suc n) a lr le
         = sent (mk_request c method (baseURL c @ path) body)
             (waited d (stop (Failed (ContextError e))))"
  using assms
  by (auto simp add: round_delay_def sleepWithContext_def
      split: if_splits round_trip.splits delay_result.splits)

lemma carried_resp_shift:
  "carried_resp w (Suc a) j (carried_resp w a (Suc 0) lr) = carried_resp w a (Suc j) lr"
  by simp

lemma carried_err_shift:
  "carried_err w (Suc a) j (carried_err w a (Suc 0) le) = carried_err w a (Suc j) le"
  by simp

lemma attempt_loop_rounds:
  assumes nr: "new_request w method (baseURL c @ path) = None"
  shows "(\<forall>i<j. round_delay c w (a + i) \<noteq> None \<and> sleep_events w (a + i) = TimerFired)
         \<Longrightarrow> j \<le> n
         \<Longrightarrow> attempt_loop c w method path body n a lr le
             = after_rounds (mk_request c method (baseURL c @ path) body) (round_delays c w a j)
                 (attempt_loop c w method path body (n - j) (a + j)
                    (carried_resp w a j lr) (carried_err w a j le))"
proof (induction j arbitrary: n a lr le)
  case 0
  then show ?case by (simp add: round_delays_0 after_rounds_Nil)
next
  case (Suc j)
  from Suc.prems(2) obtain n' where n: "n = Suc n'" and jn: "j \<le> n'"
    by (cases n) auto
  from Suc.prems(1) have "round_delay c w (a + 0) \<noteq> None" and ev: "sleep_events w (a + 0) = TimerFired"
    by blast+
  then obtain d where d: "round_delay c w a = Some d" by auto
  have rest: "\<forall>i<j. round_delay c w (Suc a + i) \<noteq> None \<and> sleep_events w (Suc a + i) = TimerFired"
    using Suc.prems(1) by (metis Suc_less_eq add_Suc_shift)
  have step: "attempt_loop c w method path body (Suc n') a lr le
         = sent (mk_request c method (baseURL c @ path) body)
             (waited d (attempt_loop c w method path body n' (Suc a)
                          (carried_resp w a (Suc 0) lr) (carried_err w a (Suc 0) le)))"
    using ev by (intro attempt_loop_round[OF nr d]) simp
  have ih: "attempt_loop c w method path body n' (Suc a)
                (carried_resp w a (Suc 0) lr) (carried_err w a (Suc 0) le)
            = after_rounds (mk_request c method (baseURL c @ path) body) (round_delays c w (Suc a) j)
                 (attempt_loop c w method path body (n' - j) (Suc a + j)
                    (carried_resp w a (Suc j) lr) (carried_err w a (Suc j) le))"
    using Suc.IH[OF rest jn, of "carried_resp w a (Suc 0) lr" "carried_err w a (Suc 0) le"]
    by (simp only: carried_resp_shift carried_err_shift)
  show ?case
    unfolding n step ih after_rounds_Cons round_delays_Suc[OF d]
    by simp
qed

lemma NewClient_example: "0 < n \<Longrightarrow> NewClient (example_config n) = Inr (example_client n)"
  by (simp add: NewClient_def example_config_def example_client_def TrimRight_def
      defaultRetryConfig_def)

lemma doRequest_loop:
  "marshals body \<Longrightarrow>
   doRequest c w method path body
   = attempt_loop c w method path body (nat (wrap64 (maxRetries (retry c) + 1))) 0 None None"
  by (simp add: doRequest_def marshals_def split: option.splits sum.splits)

lemma iterations:
  "0 \<le> m \<Longrightarrow> m < 9223372036854775807 \<Longrightarrow> nat (wrap64 (m + 1)) = Suc (nat m)"
  by (simp add: wrap64_id nat_add_distrib)

lemma attempt_loop_done:
  assumes "new_request w method (baseURL c @ path) = None"
    and "round_trips w a = RoundTripResponse resp"
    and "\<not> isRetryableStatus (resp_StatusCode resp)"
  shows "attempt_loop c w method path body (Suc n) a lr le
         = sent (mk_request c method (baseURL c @ path) body) (stop (Done resp))"
  using assms by simp

lemma attempt_loop_panic:
  assumes "new_request w method (baseURL c @ path) = None"
    and "round_trips w a = RoundTripResponse resp"
    and "isRetryableStatus (resp_StatusCode resp)"
    and "int a < maxRetries (retry c)"
    and "retryDelay (retry c) (int a) (Some resp) (jitter_draws w a) = Panic_Int64N"
  shows "attempt_loop c w method path body (Suc n) a lr le
         = sent (mk_request c method (baseURL c @ path) body) (stop Panicked)"
  using assms by simp

lemma attempt_loop_last:
  assumes "new_request w method (baseURL c @ path) = None"
    and "round_trips w a = RoundTripResponse resp"
    and "isRetryableStatus (resp_StatusCode resp)"
    and "\<not> int a < maxRetries (retry c)"
  shows "attempt_loop c w method path body (Suc 0) a lr le
         = sent (mk_request c method (baseURL c @ path) body)
             (stop (exhausted c (Some resp) le))"
  using assms by simp

lemma outcome_after_rounds [simp]: "outcome (after_rounds req ds r) = outcome r"
  by (simp add: after_rounds_def)

lemma requests_after_rounds [simp]:
  "requests (after_rounds req ds r) = replicate (length ds) req @ requests r"
  by (simp add: after_rounds_def)

lemma waits_after_rounds [simp]: "waits (after_rounds req ds r) = ds @ waits r"
  by (simp add: after_rounds_def)

lemma length_round_delays [simp]: "length (round_delays c w a j) = j"
  by (simp add: round_delays_def)

lemma run_sent_stop [simp]:
  "outcome (sent req r) = outcome r" "requests (sent req r) = req # requests r"
  "waits (sent req r) = waits r"
  "outcome (waited d r) = outcome r" "requests (waited d r) = requests r"
  "waits (waited d r) = d # waits r"
  "outcome (stop out) = out" "requests (stop out) = []" "waits (stop out) = []"
  by (simp_all add: sent_def waited_def stop_def)

text \<open>
  Retries then success, where every delay is computed: after \<open>j\<close> attempts that each
  ended in a wait that ran to its end, a response with a status that is not retryable is
  handed back, after exactly \<open>j + 1\<close> requests.
\<close>

lemma doRequest_retry_then_success:
  assumes ms: "marshals body"
    and nr: "new_request w method (baseURL c @ path) = None"
    and rounds: "\<forall>i<j. round_delay c w i \<noteq> None \<and> sleep_events w i = TimerFired"
    and budget: "int j \<le> maxRetries (retry c)" "maxRetries (retry c) < 9223372036854775807"
    and final: "round_trips w j = RoundTripResponse resp"
               "\<not> isRetryableStatus (resp_StatusCode resp)"
  shows "outcome (doRequest c w method path body) = Done resp
         \<and> requests (doRequest c w method path body)
             = replicate (Suc j) (mk_request c method (baseURL c @ path) body)
         \<and> waits (doRequest c w method path body) = round_delays c w 0 j"
proof -
  have m0: "0 \<le> maxRetries (retry c)" using budget(1) by simp
  have it: "nat (wrap64 (maxRetries (retry c) + 1)) = Suc (nat (maxRetries (retry c)))"
    using iterations[OF m0 budget(2)] .
  have jn: "j \<le> Suc (nat (maxRetries (retry c)))" using budget(1) by simp
  have rounds': "\<forall>i<j. round_delay c w (0 + i) \<noteq> None \<and> sleep_events w (0 + i) = TimerFired"
    using rounds by simp
  obtain k where k: "Suc (nat (maxRetries (retry c))) - j = Suc k"
    using budget(1) by (cases "Suc (nat (maxRetries (retry c))) - j") auto
  have "doRequest c w method path body
        = after_rounds (mk_request c method (baseURL c @ path) body) (round_delays c w 0 j)
            (attempt_loop c w method path body (Suc k) j
               (carried_resp w 0 j None) (carried_err w 0 j None))"
    using attempt_loop_rounds[OF nr rounds' jn, where body=body and lr=None and le=None]
    by (simp add: doRequest_loop[OF ms] it k del: attempt_loop.simps)
  also have "\<dots> = after_rounds (mk_request c method (baseURL c @ path) body) (round_delays c w 0 j)
            (sent (mk_request c method (baseURL c @ path) body) (stop (Done resp)))"
    by (simp only: attempt_loop_done[OF nr final])
  finally show ?thesis by (simp add: replicate_append_same)
qed

text \<open>
  Exhaustion, where every delay is computed: when all the attempts meet a retryable
  status, the call sends maxRetries + 1 requests and fails with the error that reports the
  retry budget and the status of the last response.
\<close>

lemma doRequest_exhausted:
  assumes ms: "marshals body"
    and nr: "new_request w method (baseURL c @ path) = None"
    and budget: "0 \<le> maxRetries (retry c)" "maxRetries (retry c) < 9223372036854775807"
    and rounds: "\<forall>i<nat (maxRetries (retry c)).
                   round_delay c w i \<noteq> None \<and> sleep_events w i = TimerFired"
    and final: "round_trips w (nat (maxRetries (retry c))) = RoundTripResponse resp"
               "isRetryableStatus (resp_StatusCode resp)"
  shows "outcome (doRequest c w method path body)
         = Failed (PlainAPIError
             \<lparr>StatusCode = resp_StatusCode resp,
              Message = ''request failed after '' @ fmt_d (maxRetries (retry c))
                        @ '' retries with status '' @ fmt_d (resp_StatusCode resp),
              RequestID = []\<rparr>)
         \<and> requests (doRequest c w method path body)
             = replicate (Suc (nat (maxRetries (retry c))))
                 (mk_request c method (baseURL c @ path) body)"
proof -
  define m where "m = nat (maxRetries (retry c))"
  have it: "nat (wrap64 (maxRetries (retry c) + 1)) = Suc m"
    unfolding m_def using iterations[OF budget] .
  have rounds': "\<forall>i<m. round_delay c w (0 + i) \<noteq> None \<and> sleep_events w (0 + i) = TimerFired"
    using rounds by (simp add: m_def)
  have last: "\<not> int m < maxRetries (retry c)" using budget(1) by (simp add: m_def)
  have final': "round_trips w m = RoundTripResponse resp" using final(1) by (simp add: m_def)
  have "doRequest c w method path body
        = after_rounds (mk_request c method (baseURL c @ path) body) (round_delays c w 0 m)
            (attempt_loop c w method path body (Suc 0) m
               (carried_resp w 0 m None) (carried_err w 0 m None))"
    using attempt_loop_rounds[OF nr rounds', where n="Suc m" and body=body and lr=None and le=None]
    by (simp add: doRequest_loop[OF ms] it del: attempt_loop.simps)
  also have "\<dots> = after_rounds (mk_request c method (baseURL c @ path) body) (round_delays c w 0 m)
            (sent (mk_request c method (baseURL c @ path) body)
               (stop (exhausted c (Some resp) (carried_err w 0 m None))))"
    by (simp only: attempt_loop_last[OF nr final' final(2) last])
  finally show ?thesis
    by (simp add: replicate_append_same exhausted_def m_def)
qed

text \<open>
  Claim C8: when the context is done during the wait that follows attempt \<open>j\<close> (the
  attempts before it each ended in a wait that ran to its end), doRequest returns the
  error of the context after exactly \<open>j + 1\<close> requests, without the remaining
  attempts, and so does doJSON.
\<close>

theorem doRequest_cancelled_wait:
  assumes ms: "marshals body"
    and nr: "new_request w method (baseURL c @ path) = None"
    and bound: "maxRetries (retry c) < 9223372036854775807"
    and rounds: "\<forall>i<j. round_delay c w i \<noteq> None \<and> sleep_events w i = TimerFired"
    and wait: "round_delay c w j = Some d"
    and cancel: "sleep_events w j = ContextDone e"
  shows "outcome (doRequest c w method path body) = Failed (ContextError e)
         \<and> requests (doRequest c w method path body)
             = replicate (Suc j) (mk_request c method (baseURL c @ path) body)
         \<and> waits (doRequest c w method path body) = round_delays c w 0 j @ [d]
         \<and> outcome (doJSON unmarshal statusText c w method path body result)
             = Failed (ContextError e)
         \<and> requests (doJSON unmarshal statusText c w method path body result)
             = replicate (Suc j) (mk_request c method (baseURL c @ path) body)"
proof -
  have jm: "int j < maxRetries (retry c)"
    using wait by (simp add: round_delay_def split: if_splits)
  then have m0: "0 \<le> maxRetries (retry c)" by simp
  have it: "nat (wrap64 (maxRetries (retry c) + 1)) = Suc (nat (maxRetries (retry c)))"
    using iterations[OF m0 bound] .
  have jn: "j \<le> Suc (nat (maxRetries (retry c)))" using jm by simp
  have rounds': "\<forall>i<j. round_delay c w (0 + i) \<noteq> None \<and> sleep_events w (0 + i) = TimerFired"
    using rounds by simp
  obtain k where k: "Suc (nat (maxRetries (retry c))) - j = Suc k"
    using jm by (cases "Suc (nat (maxRetries (retry c))) - j") auto
  have "doRequest c w method path body
        = after_rounds (mk_request c method (baseURL c @ path) body) (round_delays c w 0 j)
            (attempt_loop c w method path body (Suc k) j
               (carried_resp w 0 j None) (carried_err w 0 j None))"
    using attempt_loop_rounds[OF nr rounds' jn, where body=body and lr=None and le=None]
    by (simp add: doRequest_loop[OF ms] it k del: attempt_loop.simps)
  also have "\<dots> = after_rounds (mk_request c method (baseURL c @ path) body) (round_delays c w 0 j)
            (sent (mk_request c method (baseURL c @ path) body)
               (waited d (stop (Failed (ContextError e)))))"
    by (simp only: attempt_loop_cancelled[OF nr wait cancel])
  finally have run: "doRequest c w method path body
        = after_rounds (mk_request c method (baseURL c @ path) body) (round_delays c w 0 j)
            (sent (mk_request c method (baseURL c @ path) body)
               (waited d (stop (Failed (ContextError e)))))" .
  show ?thesis
    by (simp add: run doJSON_def Let_def replicate_append_same)
qed

lemma example_round_delay_0:
  "round_delay (example_client 3) cancelled_world 0 = Some 375000000"
  by (simp add: round_delay_def example_client_def cancelled_world_def scripted_world_def
      status_response_def isRetryableStatus_def retryDelay_def retry_after_delay_def
      backoff_delay_def pow2_duration_def Int64N_def go_quot_def wrap64_def duration_consts)

theorem doRequest_cancelled_wait_witness:
  "marshals None
   \<and> new_request cancelled_world ''GET'' (baseURL (example_client 3) @ ''/api/v1/spaces'') = None
   \<and> maxRetries (retry (example_client 3)) < 9223372036854775807
   \<and> round_delay (example_client 3) cancelled_world 0 \<noteq> None
   \<and> sleep_events cancelled_world 0 = TimerFired
   \<and> round_delay (example_client 3) cancelled_world 1 = Some 750000000
   \<and> sleep_events cancelled_world 1 = ContextDone Canceled
   \<and> outcome (doRequest (example_client 3) cancelled_world ''GET'' ''/api/v1/spaces'' None)
       = Failed (ContextError Canceled)
   \<and> length (requests (doRequest (example_client 3) cancelled_world ''GET'' ''/api/v1/spaces'' None))
       = 2"
proof -
  have ms: "marshals None" by (simp add: marshals_def)
  have nr: "new_request cancelled_world ''GET'' (baseURL (example_client 3) @ ''/api/v1/spaces'') = None"
    by (simp add: cancelled_world_def scripted_world_def)
  have bound: "maxRetries (retry (example_client 3)) < 9223372036854775807"
    by (simp add: example_client_def)
  have r0: "round_delay (example_client 3) cancelled_world 0 \<noteq> None"
    by (simp add: example_round_delay_0)
  have e0: "sleep_events cancelled_world 0 = TimerFired"
    by (simp add: cancelled_world_def scripted_world_def)
  have rounds: "\<forall>i<Suc 0. round_delay (example_client 3) cancelled_world i \<noteq> None
                  \<and> sleep_events cancelled_world i = TimerFired"
    using r0 e0 by simp
  have wait: "round_delay (example_client 3) cancelled_world (Suc 0) = Some 750000000"
    by (simp add: round_delay_def example_client_def cancelled_world_def scripted_world_def
        status_response_def isRetryableStatus_def retryDelay_def retry_after_delay_def
        backoff_delay_def pow2_duration_def Int64N_def go_quot_def wrap64_def duration_consts)
  have cancel: "sleep_events cancelled_world (Suc 0) = ContextDone Canceled"
    by (simp add: cancelled_world_def scripted_world_def)
  show ?thesis
    using doRequest_cancelled_wait[OF ms nr bound rounds wait cancel,
        where unmarshal=example_unmarshal and statusText="\<lambda>s. []"
          and result="None :: (string \<Rightarrow> unit option) option"]
      ms nr bound r0 e0 wait cancel
    by simp
qed

section \<open>Calls that fail fast\<close>

lemma checkResponse_kind_aux:
  assumes "\<not> (200 \<le> resp_StatusCode resp \<and> resp_StatusCode resp < 300)"
  shows "\<exists>e. checkResponse unmarshal statusText resp = Some e
           \<and> kind_of e = spec_kind (resp_StatusCode resp)"
  using assms by (simp add: checkResponse_def Let_def spec_kind_def)

text \<open>
  Failing fast, where the loop runs: for a client whose retry budget is a non-negative
  int below the largest int, when the first response carries a status that is neither 2xx
  nor one of 429, 502, 503 and 504, doRequest hands that response back after exactly one
  request and no wait, and doJSON fails after that one request with the error that
  checkResponse makes of the response, whose kind is the one that belongs to the status.
\<close>

lemma doJSON_fails_fast:
  assumes ms: "marshals body"
    and nr: "new_request w method (baseURL c @ path) = None"
    and budget: "0 \<le> maxRetries (retry c)" "maxRetries (retry c) < 9223372036854775807"
    and first: "round_trips w 0 = RoundTripResponse resp"
    and outside: "resp_StatusCode resp \<notin> {429, 502, 503, 504}"
    and non2xx: "\<not> (200 \<le> resp_StatusCode resp \<and> resp_StatusCode resp < 300)"
  shows "doRequest c w method path body
           = \<lparr>outcome = Done resp,
              requests = [mk_request c method (baseURL c @ path) body], waits = []\<rparr>
         \<and> (\<exists>e. doJSON unmarshal statusText c w method path body result
                    = \<lparr>outcome = Failed e,
                       requests = [mk_request c method (baseURL c @ path) body], waits = []\<rparr>
                \<and> checkResponse unmarshal statusText resp = Some e
                \<and> kind_of e = spec_kind (resp_StatusCode resp))"
proof -
  have nonretry: "\<not> isRetryableStatus (resp_StatusCode resp)"
    using outside by (simp add: isRetryableStatus_def)
  have it: "nat (wrap64 (maxRetries (retry c) + 1)) = Suc (nat (maxRetries (retry c)))"
    using iterations[OF budget] .
  have run: "doRequest c w method path body
           = \<lparr>outcome = Done resp,
              requests = [mk_request c method (baseURL c @ path) body], waits = []\<rparr>"
    by (simp only: doRequest_loop[OF ms] it attempt_loop_done[OF nr first nonretry])
       (simp add: sent_def stop_def)
  obtain e where e: "checkResponse unmarshal statusText resp = Some e"
    and k: "kind_of e = spec_kind (resp_StatusCode resp)"
    using checkResponse_kind_aux[OF non2xx] by blast
  show ?thesis using run e k by (simp add: doJSON_def)
qed

lemma doJSON_fails_fast_example:
  "marshals None
   \<and> new_request (status_world 404) ''GET'' (baseURL (example_client 3) @ ''/api/v1/spaces/x'') = None
   \<and> 0 \<le> maxRetries (retry (example_client 3))
   \<and> maxRetries (retry (example_client 3)) < 9223372036854775807
   \<and> round_trips (status_world 404) 0 = RoundTripResponse (status_response 404)
   \<and> resp_StatusCode (status_response 404) \<notin> {429, 502, 503, 504}
   \<and> \<not> (200 \<le> resp_StatusCode (status_response 404) \<and> resp_StatusCode (status_response 404) < 300)
   \<and> outcome (doJSON example_unmarshal (\<lambda>s. ''Not Found'') (example_client 3) (status_world 404)
                ''GET'' ''/api/v1/spaces/x'' None (None :: (string \<Rightarrow> unit option) option))
       = Failed (NotFoundError \<lparr>StatusCode = 404, Message = ''Not Found'', RequestID = []\<rparr>)
   \<and> length (requests (doJSON example_unmarshal (\<lambda>s. ''Not Found'') (example_client 3)
                (status_world 404) ''GET'' ''/api/v1/spaces/x'' None
                (None :: (string \<Rightarrow> unit option) option))) = 1"
proof -
  have ms: "marshals None" by (simp add: marshals_def)
  have nr: "new_request (status_world 404) ''GET''
              (baseURL (example_client 3) @ ''/api/v1/spaces/x'') = None"
    by (simp add: status_world_def scripted_world_def)
  have b0: "0 \<le> maxRetries (retry (example_client 3))" by (simp add: example_client_def)
  have b1: "maxRetries (retry (example_client 3)) < 9223372036854775807"
    by (simp add: example_client_def)
  have first: "round_trips (status_world 404) 0 = RoundTripResponse (status_response 404)"
    by (simp add: status_world_def scripted_world_def)
  have s1: "resp_StatusCode (status_response 404) \<notin> {429, 502, 503, 504}"
    by (simp add: status_response_def)
  have s2: "\<not> (200 \<le> resp_StatusCode (status_response 404)
               \<and> resp_StatusCode (status_response 404) < 300)"
    by (simp add: status_response_def)
  have cr: "checkResponse example_unmarshal (\<lambda>s. ''Not Found'') (status_response 404)
            = Some (NotFoundError \<lparr>StatusCode = 404, Message = ''Not Found'', RequestID = []\<rparr>)"
    by (simp add: checkResponse_def status_response_def example_unmarshal_def
        validation_example_body_def header_get_def)
  show ?thesis
    using doJSON_fails_fast[OF ms nr b0 b1 first s1 s2,
        where unmarshal=example_unmarshal and statusText="\<lambda>s. ''Not Found''"
          and result="None :: (string \<Rightarrow> unit option) option"]
      ms nr b0 b1 first s1 s2 cr
    by auto
qed

text \<open>
  Claim C3 at the retry budget 9223372036854775807 (the largest int), which NewClient
  accepts: the server answers 404, a status that is neither 2xx nor retryable.  The
  number of iterations \<open>maxRetries + 1\<close> wraps around to a negative number, so the loop
  does not run: doRequest sends no request and returns a nil response with a nil error,
  and doJSON panics on the nil response instead of returning a not-found error after one
  request.
\<close>

theorem doJSON_largest_budget_sends_nothing:
  "NewClient (example_config 9223372036854775807) = Inr (example_client 9223372036854775807)
   \<and> round_trips (status_world 404) 0 = RoundTripResponse (status_response 404)
   \<and> doRequest (example_client 9223372036854775807) (status_world 404)
         ''GET'' ''/api/v1/spaces/x'' None
       = \<lparr>outcome = Nil_Nil, requests = [], waits = []\<rparr>
   \<and> doJSON example_unmarshal (\<lambda>s. ''Not Found'') (example_client 9223372036854775807)
         (status_world 404) ''GET'' ''/api/v1/spaces/x'' None
         (None :: (string \<Rightarrow> unit option) option)
       = \<lparr>outcome = Panicked, requests = [], waits = []\<rparr>"
proof -
  have n: "NewClient (example_config 9223372036854775807)
           = Inr (example_client 9223372036854775807)"
    by (rule NewClient_example) simp
  have first: "round_trips (status_world 404) 0 = RoundTripResponse (status_response 404)"
    by (simp add: status_world_def scripted_world_def)
  have it: "nat (wrap64 (maxRetries (retry (example_client 9223372036854775807)) + 1)) = 0"
    by (simp add: example_client_def wrap64_def)
  have run: "doRequest (example_client 9223372036854775807) (status_world 404)
               ''GET'' ''/api/v1/spaces/x'' None
             = \<lparr>outcome = Nil_Nil, requests = [], waits = []\<rparr>"
    by (simp add: doRequest_def it exhausted_def stop_def)
  show ?thesis
    using n first run by (simp add: doJSON_def)
qed

section \<open>The base URL\<close>

lemma TrimRight_slash:
  "TrimRight s ''/'' = rev (dropWhile (\<lambda>c. c = CHR ''/'') (rev s))"
  by (simp add: TrimRight_def)

lemma TrimRight_no_trailing_slash:
  "TrimRight s ''/'' = [] \<or> last (TrimRight s ''/'') \<noteq> CHR ''/''"
proof (cases "dropWhile (\<lambda>c. c = CHR ''/'') (rev s) = []")
  case True
  then show ?thesis by (simp add: TrimRight_slash)
next
  case False
  then have "hd (dropWhile (\<lambda>c. c = CHR ''/'') (rev s)) \<noteq> CHR ''/''"
    using hd_dropWhile[of "\<lambda>c. c = CHR ''/''" "rev s"] by simp
  then show ?thesis using False by (simp add: TrimRight_slash last_rev)
qed

lemma takeWhile_eq_replicate:
  "takeWhile (\<lambda>c. c = x) xs = replicate (length (takeWhile (\<lambda>c. c = x) xs)) x"
  by (induction xs) auto

lemma TrimRight_suffix:
  "\<exists>k. s = TrimRight s ''/'' @ replicate k (CHR ''/'')"
proof -
  let ?P = "\<lambda>c. c = CHR ''/''"
  have "rev s = takeWhile ?P (rev s) @ dropWhile ?P (rev s)" by simp
  then have "s = rev (dropWhile ?P (rev s)) @ rev (takeWhile ?P (rev s))"
    by (metis rev_append rev_rev_ident)
  moreover have "rev (takeWhile ?P (rev s))
                 = replicate (length (takeWhile ?P (rev s))) (CHR ''/'')"
    using takeWhile_eq_replicate[of "CHR ''/''" "rev s"] by (metis rev_replicate)
  ultimately show ?thesis unfolding TrimRight_slash by metis
qed

lemma TrimRight_idem: "TrimRight (TrimRight s ''/'') ''/'' = TrimRight s ''/''"
  by (simp add: TrimRight_slash)

lemma attempt_loop_urls:
  "\<forall>req \<in> set (requests (attempt_loop c w method path body n a lr le)).
     req_url req = baseURL c @ path"
proof (induction n arbitrary: a lr le)
  case 0
  then show ?case by simp
next
  case (Suc n)
  show ?case
    using Suc.IH
    by (auto simp add: mk_request_def
        split: option.splits round_trip.splits delay_result.splits if_splits)
qed

lemma doRequest_urls:
  "\<forall>req \<in> set (requests (doRequest c w method path body)). req_url req = baseURL c @ path"
  using attempt_loop_urls[of c w "method" "path" body]
  by (auto simp add: doRequest_def split: option.splits sum.splits simp del: attempt_loop.simps)

text \<open>
  Claim C9: the base URL of a client that NewClient builds is the endpoint without its
  trailing slashes (the endpoint is the base URL followed by slashes only, and the base
  URL does not end in a slash), trimming it again changes nothing, and the URL of every
  request of doRequest is the base URL followed by the path.
\<close>

theorem NewClient_baseURL:
  assumes "NewClient cfg = Inr c"
  shows "baseURL c = TrimRight (Endpoint cfg) ''/''
         \<and> (\<exists>k. Endpoint cfg = baseURL c @ replicate k (CHR ''/''))
         \<and> (baseURL c = [] \<or> last (baseURL c) \<noteq> CHR ''/'')
         \<and> TrimRight (baseURL c) ''/'' = baseURL c
         \<and> (\<forall>req \<in> set (requests (doRequest c w method path body)).
               req_url req = baseURL c @ path)"
proof -
  have b: "baseURL c = TrimRight (Endpoint cfg) ''/''"
    using assms by (auto simp add: NewClient_def Let_def split: if_splits)
  show ?thesis
    unfolding b
    using TrimRight_suffix[of "Endpoint cfg"] TrimRight_no_trailing_slash[of "Endpoint cfg"]
      TrimRight_idem[of "Endpoint cfg"] doRequest_urls[of c w "method" "path" body]
    by (simp add: b)
qed

theorem NewClient_baseURL_witness:
  "NewClient (example_config 3) = Inr (example_client 3)
   \<and> Endpoint (example_config 3) = ''https://api.example.com/''
   \<and> baseURL (example_client 3) = ''https://api.example.com''
   \<and> map req_url (requests (doRequest (example_client 3) (status_world 200) ''GET''
                               ''/api/v1/spaces'' None))
       = [''https://api.example.com/api/v1/spaces'']"
proof -
  have n: "NewClient (example_config 3) = Inr (example_client 3)"
    by (rule NewClient_example) simp
  have ms: "marshals None" by (simp add: marshals_def)
  have nr: "new_request (status_world 200) ''GET''
              (baseURL (example_client 3) @ ''/api/v1/spaces'') = None"
    by (simp add: status_world_def scripted_world_def)
  have first: "round_trips (status_world 200) 0 = RoundTripResponse (status_response 200)"
    by (simp add: status_world_def scripted_world_def)
  have s1: "\<not> isRetryableStatus (resp_StatusCode (status_response 200))"
    by (simp add: status_response_def isRetryableStatus_def)
  have reqs: "requests (doRequest (example_client 3) (status_world 200) ''GET''
                ''/api/v1/spaces'' None)
              = [mk_request (example_client 3) ''GET''
                   (baseURL (example_client 3) @ ''/api/v1/spaces'') None]"
    using doRequest_retry_then_success[OF ms nr _ _ _ first s1]
    by (simp add: example_client_def)
  have b: "baseURL (example_client 3) = ''https://api.example.com''"
    by (simp add: example_client_def)
  have url: "req_url (mk_request (example_client 3) ''GET''
                        (baseURL (example_client 3) @ ''/api/v1/spaces'') None)
             = baseURL (example_client 3) @ ''/api/v1/spaces''"
    using NewClient_baseURL[OF n, of "status_world 200" "''GET''" "''/api/v1/spaces''" None,
        THEN conjunct2, THEN conjunct2, THEN conjunct2, THEN conjunct2]
    by (simp add: reqs)
  show ?thesis
    using n url by (simp add: reqs b example_config_def)
qed

section \<open>Overflow of the exponential backoff\<close>

text \<open>
  With the default base delay of 500 ms the product \<open>baseDelay * 2^attempt\<close> fits an int64
  up to attempt 34.  At attempt 35 it wraps around to a negative duration, which the cap
  leaves alone, and \<^verbatim>\<open>rand.Int64N\<close> panics on the negative half of it.
\<close>

lemma default_backoff_returns:
  assumes i: "i \<le> 34"
    and cfg: "baseDelay cfg = 500000000" "maxDelay cfg = 30000000000"
    and st: "resp_StatusCode resp \<noteq> 429"
  shows "\<exists>d. retryDelay cfg (int i) (Some resp) r = Delay d"
proof -
  have p: "pow2_duration (int i) = Some (2 ^ i)"
    using i by (simp add: pow2_duration_def)
  have le: "(2::int) ^ i \<le> 2 ^ 34"
    using i by (intro power_increasing) simp_all
  have ge: "(1::int) \<le> 2 ^ i" by simp
  have lo: "(0::int) \<le> 500000000 * 2 ^ i" by simp
  have "(500000000::int) * 2 ^ i \<le> 500000000 * 2 ^ 34"
    using le by (intro mult_left_mono) simp_all
  then have hi: "(500000000::int) * 2 ^ i < 9223372036854775808" by simp
  have w: "wrap64 (500000000 * 2 ^ i) = 500000000 * 2 ^ i"
  proof (rule wrap64_id)
    show "- 9223372036854775808 \<le> (500000000::int) * 2 ^ i" using lo by linarith
    show "(500000000::int) * 2 ^ i < 9223372036854775808" by (rule hi)
  qed
  define d :: int where "d = (if 500000000 * (2::int) ^ i > 30000000000 then 30000000000
                       else 500000000 * 2 ^ i)"
  have b: "backoff_delay cfg (int i) = Some d"
    by (simp add: backoff_delay_def p cfg w d_def)
  have h: "(500000000::int) * 1 \<le> 500000000 * 2 ^ i"
    using ge by (intro mult_left_mono) simp_all
  have d2: "2 \<le> d"
  proof (cases "500000000 * (2::int) ^ i > 30000000000")
    case True
    then have "d = 30000000000" unfolding d_def by (simp only: if_True)
    then show ?thesis by simp
  next
    case False
    then have "d = 500000000 * 2 ^ i" unfolding d_def by (simp only: if_False)
    then show ?thesis using h by linarith
  qed
  then have q: "0 < go_quot d 2" by (simp add: go_quot_2_pos_iff)
  have ra: "retry_after_delay cfg (Some resp) = None"
    using st by (simp add: retry_after_delay_def)
  show ?thesis using q by (simp add: retryDelay_def ra b Int64N_def)
qed

lemma default_backoff_panics:
  assumes cfg: "baseDelay cfg = 500000000" "maxDelay cfg = 30000000000"
    and st: "resp_StatusCode resp \<noteq> 429"
  shows "retryDelay cfg 35 (Some resp) r = Panic_Int64N"
proof -
  have ra: "retry_after_delay cfg (Some resp) = None"
    using st by (simp add: retry_after_delay_def)
  have b: "backoff_delay cfg 35 = Some (- 1266874889709551616)"
    by (simp add: backoff_delay_def pow2_duration_def cfg wrap64_def)
  show ?thesis by (simp add: retryDelay_def ra b Int64N_def go_quot_def)
qed

lemma doRequest_overflow_panic:
  assumes nr: "new_request w method (baseURL (example_client 36) @ path) = None"
    and rts: "\<forall>i<36. round_trips w i = RoundTripResponse (status_response 503)"
    and evs: "\<forall>i<35. sleep_events w i = TimerFired"
  shows "outcome (doRequest (example_client 36) w method path None) = Panicked
         \<and> length (requests (doRequest (example_client 36) w method path None)) = 36"
proof -
  let ?c = "example_client 36"
  have base: "baseDelay (retry ?c) = 500000000" "maxDelay (retry ?c) = 30000000000"
    and m: "maxRetries (retry ?c) = 36"
    by (simp_all add: example_client_def duration_consts)
  have st: "resp_StatusCode (status_response 503) \<noteq> 429"
    and rt: "isRetryableStatus (resp_StatusCode (status_response 503))"
    by (simp_all add: status_response_def isRetryableStatus_def)
  have rounds: "\<forall>i<35. round_delay ?c w (0 + i) \<noteq> None \<and> sleep_events w (0 + i) = TimerFired"
  proof (intro allI impI)
    fix i :: nat
    assume i: "i < 35"
    then have r: "round_trips w i = RoundTripResponse (status_response 503)" using rts by simp
    obtain d where "retryDelay (retry ?c) (int i) (Some (status_response 503)) (jitter_draws w i)
                    = Delay d"
      using default_backoff_returns[OF _ base st, of i] i by auto
    then have "round_delay ?c w i \<noteq> None"
      using i by (simp add: round_delay_def m r rt)
    then show "round_delay ?c w (0 + i) \<noteq> None \<and> sleep_events w (0 + i) = TimerFired"
      using evs i by simp
  qed
  have ms: "marshals None" by (simp add: marshals_def)
  have it: "nat (wrap64 (maxRetries (retry ?c) + 1)) = 37"
    by (simp add: m wrap64_def)
  have r35: "round_trips w 35 = RoundTripResponse (status_response 503)" using rts by simp
  have p35: "retryDelay (retry ?c) (int 35) (Some (status_response 503)) (jitter_draws w 35)
             = Panic_Int64N"
    using default_backoff_panics[OF base st] by simp
  have a35: "int 35 < maxRetries (retry ?c)" by (simp add: m)
  have "doRequest ?c w method path None
        = after_rounds (mk_request ?c method (baseURL ?c @ path) None) (round_delays ?c w 0 35)
            (attempt_loop ?c w method path None (Suc (Suc 0)) 35
               (carried_resp w 0 35 None) (carried_err w 0 35 None))"
    using attempt_loop_rounds[OF nr rounds, where n=37 and body=None and lr=None and le=None]
    by (simp add: doRequest_loop[OF ms] it numeral_2_eq_2 del: attempt_loop.simps)
  also have "\<dots> = after_rounds (mk_request ?c method (baseURL ?c @ path) None)
                     (round_delays ?c w 0 35)
                     (sent (mk_request ?c method (baseURL ?c @ path) None) (stop Panicked))"
    by (simp only: attempt_loop_panic[OF nr r35 rt a35 p35])
  finally show ?thesis by simp
qed

text \<open>
  Claim C2 at a retry budget of 36, which NewClient accepts: the server answers 503 to the
  first 36 requests and 200 to request 37, and 37 is within maxRetries + 1 attempts.  The
  call sends 36 requests and panics while it computes the delay after request 36; it does
  not send request 37 and does not return the 200 response.
\<close>

theorem doRequest_success_after_36_retries_panics:
  "NewClient (example_config 36) = Inr (example_client 36)
   \<and> maxRetries (retry (example_client 36)) = 36
   \<and> round_trips (outage_world 36) 36 = RoundTripResponse (status_response 200)
   \<and> outcome (doRequest (example_client 36) (outage_world 36) ''GET'' ''/api/v1/spaces'' None)
       = Panicked
   \<and> length (requests (doRequest (example_client 36) (outage_world 36) ''GET''
                ''/api/v1/spaces'' None)) = 36"
proof -
  have n: "NewClient (example_config 36) = Inr (example_client 36)"
    by (rule NewClient_example) simp
  have nr: "new_request (outage_world 36) ''GET''
              (baseURL (example_client 36) @ ''/api/v1/spaces'') = None"
    by (simp add: outage_world_def scripted_world_def)
  have rts: "\<forall>i<36. round_trips (outage_world 36) i = RoundTripResponse (status_response 503)"
    by (simp add: outage_world_def scripted_world_def)
  have evs: "\<forall>i<35. sleep_events (outage_world 36) i = TimerFired"
    by (simp add: outage_world_def scripted_world_def)
  have last: "round_trips (outage_world 36) 36 = RoundTripResponse (status_response 200)"
    by (simp add: outage_world_def scripted_world_def)
  show ?thesis
    using doRequest_overflow_panic[OF nr rts evs] n last by (simp add: example_client_def)
qed

text \<open>
  Claim C4 at a retry budget of 36, which NewClient accepts: the server answers 503 to
  every request.  The call sends 36 requests, not 37, and panics while it computes the
  delay after request 36; it returns no error value.
\<close>

theorem doRequest_exhausting_36_retries_panics:
  "NewClient (example_config 36) = Inr (example_client 36)
   \<and> maxRetries (retry (example_client 36)) = 36
   \<and> outcome (doRequest (example_client 36) down_world ''GET'' ''/api/v1/spaces'' None)
       = Panicked
   \<and> length (requests (doRequest (example_client 36) down_world ''GET''
                ''/api/v1/spaces'' None)) = 36"
proof -
  have n: "NewClient (example_config 36) = Inr (example_client 36)"
    by (rule NewClient_example) simp
  have nr: "new_request down_world ''GET''
              (baseURL (example_client 36) @ ''/api/v1/spaces'') = None"
    by (simp add: down_world_def scripted_world_def)
  have rts: "\<forall>i<36. round_trips down_world i = RoundTripResponse (status_response 503)"
    by (simp add: down_world_def scripted_world_def)
  have evs: "\<forall>i<35. sleep_events down_world i = TimerFired"
    by (simp add: down_world_def scripted_world_def)
  show ?thesis
    using doRequest_overflow_panic[OF nr rts evs] n by (simp add: example_client_def)
qed

section \<open>The default retry budget\<close>

text \<open>
  With the default budget of 3 retries no delay overflows: against a server that always
  answers 503 the call sends 4 requests and fails with the error that reports 3 retries
  and the status 503.
\<close>

lemma fmt_d_examples: "fmt_d 3 = ''3''" "fmt_d 503 = ''503''"
  by (simp_all add: fmt_d_def nat_dec.simps digit_char_def)

lemma doRequest_exhausted_default:
  "outcome (doRequest (example_client 3) down_world ''GET'' ''/api/v1/spaces'' None)
     = Failed (PlainAPIError
         \<lparr>StatusCode = 503, Message = ''request failed after 3 retries with status 503'',
          RequestID = []\<rparr>)
   \<and> length (requests (doRequest (example_client 3) down_world ''GET'' ''/api/v1/spaces'' None))
     = 4"
proof -
  let ?c = "example_client 3"
  have base: "baseDelay (retry ?c) = 500000000" "maxDelay (retry ?c) = 30000000000"
    and m: "maxRetries (retry ?c) = 3"
    by (simp_all add: example_client_def duration_consts)
  have st: "resp_StatusCode (status_response 503) \<noteq> 429"
    and rt: "isRetryableStatus (resp_StatusCode (status_response 503))"
    and sc: "resp_StatusCode (status_response 503) = 503"
    by (simp_all add: status_response_def isRetryableStatus_def)
  have ms: "marshals None" by (simp add: marshals_def)
  have nr: "new_request down_world ''GET'' (baseURL ?c @ ''/api/v1/spaces'') = None"
    by (simp add: down_world_def scripted_world_def)
  have rts: "round_trips down_world i = RoundTripResponse (status_response 503)" for i
    by (simp add: down_world_def scripted_world_def)
  have evs: "sleep_events down_world i = TimerFired" for i
    by (simp add: down_world_def scripted_world_def)
  have rounds: "\<forall>i<nat (maxRetries (retry ?c)).
                  round_delay ?c down_world i \<noteq> None \<and> sleep_events down_world i = TimerFired"
  proof (intro allI impI)
    fix i :: nat
    assume i: "i < nat (maxRetries (retry ?c))"
    then have i3: "i < 3" by (simp add: m)
    obtain d where "retryDelay (retry ?c) (int i) (Some (status_response 503))
                      (jitter_draws down_world i) = Delay d"
      using default_backoff_returns[OF _ base st, of i] i3 by auto
    then have "round_delay ?c down_world i \<noteq> None"
      using i3 by (simp add: round_delay_def m rts rt)
    then show "round_delay ?c down_world i \<noteq> None \<and> sleep_events down_world i = TimerFired"
      by (simp add: evs)
  qed
  have b0: "0 \<le> maxRetries (retry ?c)" and b1: "maxRetries (retry ?c) < 9223372036854775807"
    by (simp_all add: m)
  show ?thesis
    using doRequest_exhausted[OF ms nr b0 b1 rounds rts rt]
    by (simp add: m sc fmt_d_examples)
qed

end
